theory Spec2Isabelle
  imports Main "HOL-Library.Word"
begin

section \<open>TerminalSettings.cpp: layered resolution of terminal settings\<close>

text \<open>
  A shallow embedding of \<^verbatim>\<open>src/cascadia/TerminalApp/TerminalSettings.cpp\<close>.
  The member functions mutate \<^verbatim>\<open>*this\<close>; here each one takes the settings object
  and returns the updated one. A C++ exception is a value of type \<open>failure\<close> on the left
  of a sum, so that a function that throws returns no settings object at all.
\<close>

subsection \<open>Scalar types\<close>

type_synonym hstring = string
type_synonym guid = "128 word"
type_synonym int32_t = "32 word"    \<comment> \<open>read with \<open>sint\<close>, compared with \<open>\<le>s\<close> and \<open><s\<close>\<close>
type_synonym uint32_t = "32 word"
type_synonym size_t = "64 word"
type_synonym double = "64 word"     \<comment> \<open>only ever copied: carried as its bit pattern\<close>
type_synonym enum = "32 word"       \<comment> \<open>an enum class copied through, as its underlying value\<close>

text \<open>
  The ways a call can fail: \<^verbatim>\<open>THROW_HR_IF(E_INVALIDARG, ...)\<close> and
  \<^verbatim>\<open>THROW_HR_IF_NULL(E_INVALIDARG, ...)\<close> throw the invalid-argument error;
  \<^verbatim>\<open>std::array::at\<close> throws \<^verbatim>\<open>std::out_of_range\<close>; an exception that reaches
  the boundary of a \<^verbatim>\<open>noexcept\<close> function ends the process by \<^verbatim>\<open>std::terminate\<close>.
\<close>

datatype failure = E_INVALIDARG | out_of_range | terminate

text \<open>
  Modelled from the spec: the header of \<^verbatim>\<open>til::color\<close> is not part of the sources.
  The spec describes a colour as a packed RGB(A) value and its conversion to the packed
  form of the table as a one-to-one, loss-free reinterpretation, so a colour is the
  packed value under a constructor and the conversion reads it back.
\<close>

datatype til_color = Color (to_uint32: uint32_t)

text \<open>
  Modelled from the spec: \<^verbatim>\<open>COLOR_TABLE_SIZE\<close>, the number of slots of the colour
  table and of a scheme's palette, is declared in a header that is not part of the
  sources; the spec fixes it at 16.
\<close>

definition COLOR_TABLE_SIZE :: nat where
  "COLOR_TABLE_SIZE = 16"

subsection \<open>The inputs: colour scheme, profile, globals, launch arguments, registry\<close>

text \<open>
  The classes of the inputs are declared outside TerminalSettings.cpp. Only the accessors
  that TerminalSettings.cpp calls are fields, with the types that the calls show: a
  string where \<^verbatim>\<open>.empty()\<close> is asked, a flag where the value is tested. A nullable colour
  (\<^verbatim>\<open>if (profile.Foreground())\<close> ... \<^verbatim>\<open>.Value()\<close>) is an option. The evaluated
  starting directory and the expanded background image path are computed by the profile
  (outside this file) and are taken as given.
\<close>

record ColorScheme =
  Foreground :: til_color
  Background :: til_color
  SelectionBackground :: til_color
  CursorColor :: til_color
  Table :: "til_color list"

record Profile =
  HistorySize :: int32_t
  SnapOnInput :: bool
  AltGrAliasing :: bool
  CursorHeight :: uint32_t
  CursorShape :: enum
  Name :: hstring
  UseAcrylic :: bool
  AcrylicOpacity :: double
  FontFace :: hstring
  FontSize :: int32_t
  FontWeight :: "16 word"
  Padding :: hstring
  Commandline :: hstring
  StartingDirectory :: hstring
  GetEvaluatedStartingDirectory :: hstring
  TabTitle :: hstring
  SuppressApplicationTitle :: bool
  ColorSchemeName :: hstring
  Foreground :: "til_color option"
  Background :: "til_color option"
  SelectionBackground :: "til_color option"
  CursorColor :: "til_color option"
  ScrollState :: enum
  BackgroundImagePath :: hstring
  GetExpandedBackgroundImagePath :: hstring
  BackgroundImageOpacity :: double
  BackgroundImageStretchMode :: enum
  BackgroundImageHorizontalAlignment :: enum
  BackgroundImageVerticalAlignment :: enum
  RetroTerminalEffect :: bool
  AntialiasingMode :: enum
  TabColor :: "til_color option"

record GlobalAppSettings =
  GetColorSchemes :: "hstring \<rightharpoonup> ColorScheme"
  InitialRows :: int32_t
  InitialCols :: int32_t
  WordDelimiters :: hstring
  CopyOnSelect :: bool
  ForceFullRepaintRendering :: bool
  SoftwareRendering :: bool
  ForceVTInput :: bool

record NewTerminalArgs =
  Commandline :: hstring
  StartingDirectory :: hstring
  TabTitle :: hstring

text \<open>
  The registry. \<^verbatim>\<open>FindProfile\<close> returns the profile or null;
  \<^verbatim>\<open>GetProfileForArgs\<close> maps the launch arguments, which may be null, to a profile
  identity. Both are implemented outside this file and are taken as given.
\<close>

record CascadiaSettings =
  FindProfile :: "guid \<Rightarrow> Profile option"
  GlobalSettings :: GlobalAppSettings
  GetProfileForArgs :: "NewTerminalArgs option \<Rightarrow> guid"

subsection \<open>The settings object\<close>

text \<open>
  The members that TerminalSettings.cpp writes, under the names of their accessors
  (\<^verbatim>\<open>_Commandline\<close> is \<open>Commandline\<close>), and the colour table \<^verbatim>\<open>_colorTable\<close>.
  The values of a freshly constructed object come from the class declaration, which is
  not part of the sources: the constructor below takes that object as its first argument.
\<close>

record TerminalSettings =
  HistorySize :: int32_t
  SnapOnInput :: bool
  AltGrAliasing :: bool
  CursorHeight :: uint32_t
  CursorShape :: enum
  ProfileName :: hstring
  UseAcrylic :: bool
  TintOpacity :: double
  FontFace :: hstring
  FontSize :: int32_t
  FontWeight :: "16 word"
  Padding :: hstring
  Commandline :: hstring
  StartingDirectory :: hstring
  StartingTitle :: hstring
  SuppressApplicationTitle :: bool
  DefaultForeground :: uint32_t
  DefaultBackground :: uint32_t
  SelectionBackground :: uint32_t
  CursorColor :: uint32_t
  ScrollState :: enum
  BackgroundImage :: hstring
  BackgroundImageOpacity :: double
  BackgroundImageStretchMode :: enum
  BackgroundImageHorizontalAlignment :: enum
  BackgroundImageVerticalAlignment :: enum
  RetroTerminalEffect :: bool
  AntialiasingMode :: enum
  TabColor :: "uint32_t option"
  InitialRows :: int32_t
  InitialCols :: int32_t
  WordDelimiters :: hstring
  CopyOnSelect :: bool
  ForceFullRepaintRendering :: bool
  SoftwareRendering :: bool
  ForceVTInput :: bool
  colorTable :: "uint32_t list"

subsection \<open>The colour table\<close>

text \<open>
  \<^verbatim>\<open>std::array::at(pos)\<close> takes a \<^verbatim>\<open>size_t\<close> and throws
  \<^verbatim>\<open>std::out_of_range\<close> unless \<^verbatim>\<open>pos < size()\<close>. Passing an \<^verbatim>\<open>int32_t\<close>
  converts it to \<^verbatim>\<open>size_t\<close> with sign extension (\<open>scast\<close>).
\<close>

definition array_at :: "'a list \<Rightarrow> size_t \<Rightarrow> failure + 'a" where
  "array_at xs pos = (if unat pos < length xs then Inr (xs ! unat pos) else Inl out_of_range)"

text \<open>
  \<^verbatim>\<open>GetColorTableEntry\<close> is \<^verbatim>\<open>noexcept\<close> and returns \<^verbatim>\<open>_colorTable.at(index)\<close>:
  the exception of \<^verbatim>\<open>at\<close> cannot leave it.
\<close>

definition GetColorTableEntry :: "int32_t \<Rightarrow> TerminalSettings \<Rightarrow> failure + uint32_t" where
  "GetColorTableEntry index s =
     (case array_at (colorTable s) (scast index) of
        Inl e \<Rightarrow> Inl terminate
      | Inr v \<Rightarrow> Inr v)"

text \<open>
  \<^verbatim>\<open>SetColorTableEntry\<close>: the size of the table narrowed to the type of
  \<^verbatim>\<open>index\<close>, the signed test \<^verbatim>\<open>index >= colorTableCount\<close>, then the write
  through \<^verbatim>\<open>at\<close>.
\<close>

definition SetColorTableEntry ::
  "int32_t \<Rightarrow> uint32_t \<Rightarrow> TerminalSettings \<Rightarrow> failure + TerminalSettings" where
  "SetColorTableEntry index val s =
     (let colorTableCount = (word_of_nat (length (colorTable s)) :: int32_t) in
      if colorTableCount \<le>s index then Inl E_INVALIDARG
      else (case array_at (colorTable s) (scast index) of
              Inl e \<Rightarrow> Inl e
            | Inr _ \<Rightarrow> Inr (s\<lparr>colorTable := (colorTable s)[unat (scast index :: size_t) := val]\<rparr>)))"

subsection \<open>Applying a colour scheme\<close>

text \<open>
  The loop of \<^verbatim>\<open>_ApplyColorScheme\<close>:
  \<^verbatim>\<open>for (int i = 0; i < tableCount; i++) SetColorTableEntry(i, til::color{ table[i] });\<close>
  An exception of \<^verbatim>\<open>SetColorTableEntry\<close> ends it.
\<close>

function ApplyColorScheme_loop ::
  "int32_t \<Rightarrow> int32_t \<Rightarrow> til_color list \<Rightarrow> TerminalSettings \<Rightarrow> failure + TerminalSettings" where
  "ApplyColorScheme_loop i tableCount table s =
     (if i <s tableCount
      then (case SetColorTableEntry i (to_uint32 (table ! unat i)) s of
              Inl e \<Rightarrow> Inl e
            | Inr s' \<Rightarrow> ApplyColorScheme_loop (i + 1) tableCount table s')
      else Inr s)"
  by pat_completeness auto

termination ApplyColorScheme_loop
proof (relation "measure (\<lambda>(i, n, _, _). nat (sint n - sint i))")
  show "wf (measure (\<lambda>(i, n, _, _). nat (sint n - sint i)))"
    by simp
next
  fix i tableCount :: int32_t and table :: "til_color list" and s s' :: TerminalSettings
  assume "i <s tableCount"
  then have below: "sint i < sint tableCount"
    by (simp add: word_sless_alt)
  moreover have "sint tableCount < 2 ^ 31"
    using sint_lt [of tableCount] by simp
  moreover have "- (2 ^ 31) \<le> sint i"
    using sint_ge [of i] by simp
  ultimately have "signed_take_bit 31 (sint i + 1) = sint i + 1"
    by (intro signed_take_bit_int_eq_self) simp_all
  then have "sint (i + 1) = sint i + 1"
    by (simp add: sint_word_add)
  with below show "((i + 1, tableCount, table, s'), (i, tableCount, table, s))
             \<in> measure (\<lambda>(i, n, _, _). nat (sint n - sint i))"
    by simp
qed

declare ApplyColorScheme_loop.simps [simp del]

text \<open>
  \<^verbatim>\<open>_ApplyColorScheme\<close>: the four distinguished colours, then the palette.
  \<^verbatim>\<open>tableCount\<close> is \<^verbatim>\<open>gsl::narrow_cast<int>(table.size())\<close>.
\<close>

definition priv_ApplyColorScheme :: "ColorScheme \<Rightarrow> TerminalSettings \<Rightarrow> failure + TerminalSettings" where
  "priv_ApplyColorScheme scheme s =
     (let s = s\<lparr>DefaultForeground := to_uint32 (ColorScheme.Foreground scheme)\<rparr>;
          s = s\<lparr>DefaultBackground := to_uint32 (ColorScheme.Background scheme)\<rparr>;
          s = s\<lparr>SelectionBackground := to_uint32 (ColorScheme.SelectionBackground scheme)\<rparr>;
          s = s\<lparr>CursorColor := to_uint32 (ColorScheme.CursorColor scheme)\<rparr>;
          table = Table scheme;
          tableCount = (word_of_nat (length table) :: int32_t)
      in ApplyColorScheme_loop 0 tableCount table s)"

text \<open>
  \<^verbatim>\<open>ApplyColorScheme\<close>: \<^verbatim>\<open>schemes.TryLookup(scheme)\<close>, and the scheme applied
  when it is found. The result is the returned flag and the settings object.
\<close>

definition ApplyColorScheme ::
  "hstring \<Rightarrow> (hstring \<rightharpoonup> ColorScheme) \<Rightarrow> TerminalSettings \<Rightarrow> failure + (bool \<times> TerminalSettings)" where
  "ApplyColorScheme scheme schemes s =
     (case schemes scheme of
        Some found \<Rightarrow>
          (case priv_ApplyColorScheme found s of
             Inl e \<Rightarrow> Inl e
           | Inr s' \<Rightarrow> Inr (True, s'))
      | None \<Rightarrow> Inr (False, s))"

subsection \<open>Applying the profile and the globals\<close>

definition priv_ApplyProfileSettings ::
  "Profile \<Rightarrow> (hstring \<rightharpoonup> ColorScheme) \<Rightarrow> TerminalSettings \<Rightarrow> failure + TerminalSettings" where
  "priv_ApplyProfileSettings profile schemes s =
     (let s = s\<lparr>HistorySize := Profile.HistorySize profile\<rparr>;
          s = s\<lparr>SnapOnInput := Profile.SnapOnInput profile\<rparr>;
          s = s\<lparr>AltGrAliasing := Profile.AltGrAliasing profile\<rparr>;
          s = s\<lparr>CursorHeight := Profile.CursorHeight profile\<rparr>;
          s = s\<lparr>CursorShape := Profile.CursorShape profile\<rparr>;
          s = s\<lparr>ProfileName := Profile.Name profile\<rparr>;
          s = s\<lparr>UseAcrylic := Profile.UseAcrylic profile\<rparr>;
          s = s\<lparr>TintOpacity := Profile.AcrylicOpacity profile\<rparr>;
          s = s\<lparr>FontFace := Profile.FontFace profile\<rparr>;
          s = s\<lparr>FontSize := Profile.FontSize profile\<rparr>;
          s = s\<lparr>FontWeight := Profile.FontWeight profile\<rparr>;
          s = s\<lparr>Padding := Profile.Padding profile\<rparr>;
          s = s\<lparr>Commandline := Profile.Commandline profile\<rparr>;
          s = (if Profile.StartingDirectory profile \<noteq> []
               then s\<lparr>StartingDirectory := Profile.GetEvaluatedStartingDirectory profile\<rparr>
               else s);
          s = s\<lparr>StartingTitle := (if Profile.TabTitle profile \<noteq> []
                                   then Profile.TabTitle profile
                                   else Profile.Name profile)\<rparr>;
          s = (if Profile.SuppressApplicationTitle profile
               then s\<lparr>SuppressApplicationTitle := Profile.SuppressApplicationTitle profile\<rparr>
               else s)
      in case (if Profile.ColorSchemeName profile \<noteq> []
               then ApplyColorScheme (Profile.ColorSchemeName profile) schemes s
               else Inr (False, s)) of
           Inl e \<Rightarrow> Inl e
         | Inr r \<Rightarrow>
             (let s = snd r;
                  s = (case Profile.Foreground profile of
                         Some colorRef \<Rightarrow> s\<lparr>DefaultForeground := to_uint32 colorRef\<rparr>
                       | None \<Rightarrow> s);
                  s = (case Profile.Background profile of
                         Some colorRef \<Rightarrow> s\<lparr>DefaultBackground := to_uint32 colorRef\<rparr>
                       | None \<Rightarrow> s);
                  s = (case Profile.SelectionBackground profile of
                         Some colorRef \<Rightarrow> s\<lparr>SelectionBackground := to_uint32 colorRef\<rparr>
                       | None \<Rightarrow> s);
                  s = (case Profile.CursorColor profile of
                         Some colorRef \<Rightarrow> s\<lparr>CursorColor := to_uint32 colorRef\<rparr>
                       | None \<Rightarrow> s);
                  s = s\<lparr>ScrollState := Profile.ScrollState profile\<rparr>;
                  s = (if Profile.BackgroundImagePath profile \<noteq> []
                       then s\<lparr>BackgroundImage := Profile.GetExpandedBackgroundImagePath profile\<rparr>
                       else s);
                  s = s\<lparr>BackgroundImageOpacity := Profile.BackgroundImageOpacity profile\<rparr>;
                  s = s\<lparr>BackgroundImageStretchMode := Profile.BackgroundImageStretchMode profile\<rparr>;
                  s = s\<lparr>BackgroundImageHorizontalAlignment :=
                          Profile.BackgroundImageHorizontalAlignment profile\<rparr>;
                  s = s\<lparr>BackgroundImageVerticalAlignment :=
                          Profile.BackgroundImageVerticalAlignment profile\<rparr>;
                  s = s\<lparr>RetroTerminalEffect := Profile.RetroTerminalEffect profile\<rparr>;
                  s = s\<lparr>AntialiasingMode := Profile.AntialiasingMode profile\<rparr>;
                  s = (case Profile.TabColor profile of
                         Some colorRef \<Rightarrow> s\<lparr>TabColor := Some (to_uint32 colorRef)\<rparr>
                       | None \<Rightarrow> s)
              in Inr s))"

text \<open>\<^verbatim>\<open>_ApplyGlobalSettings\<close> is \<^verbatim>\<open>noexcept\<close> and only copies.\<close>

definition priv_ApplyGlobalSettings :: "GlobalAppSettings \<Rightarrow> TerminalSettings \<Rightarrow> TerminalSettings" where
  "priv_ApplyGlobalSettings globalSettings s =
     (let s = s\<lparr>InitialRows := GlobalAppSettings.InitialRows globalSettings\<rparr>;
          s = s\<lparr>InitialCols := GlobalAppSettings.InitialCols globalSettings\<rparr>;
          s = s\<lparr>WordDelimiters := GlobalAppSettings.WordDelimiters globalSettings\<rparr>;
          s = s\<lparr>CopyOnSelect := GlobalAppSettings.CopyOnSelect globalSettings\<rparr>;
          s = s\<lparr>ForceFullRepaintRendering :=
                  GlobalAppSettings.ForceFullRepaintRendering globalSettings\<rparr>;
          s = s\<lparr>SoftwareRendering := GlobalAppSettings.SoftwareRendering globalSettings\<rparr>;
          s = s\<lparr>ForceVTInput := GlobalAppSettings.ForceVTInput globalSettings\<rparr>
      in s)"

subsection \<open>Construction\<close>

text \<open>
  The constructor \<^verbatim>\<open>TerminalSettings(appSettings, profileGuid)\<close>; \<open>fresh\<close> is the
  object before the constructor's body runs. When the body throws, the object is gone.
\<close>

definition TerminalSettings_ctor ::
  "TerminalSettings \<Rightarrow> CascadiaSettings \<Rightarrow> guid \<Rightarrow> failure + TerminalSettings" where
  "TerminalSettings_ctor fresh appSettings profileGuid =
     (case FindProfile appSettings profileGuid of
        None \<Rightarrow> Inl E_INVALIDARG
      | Some profile \<Rightarrow>
          (let globals = GlobalSettings appSettings in
           case priv_ApplyProfileSettings profile (GetColorSchemes globals) fresh of
             Inl e \<Rightarrow> Inl e
           | Inr s \<Rightarrow> Inr (priv_ApplyGlobalSettings globals s)))"

text \<open>
  \<^verbatim>\<open>BuildSettings\<close>; \<^verbatim>\<open>if (newTerminalArgs)\<close> tests the argument object for null,
  so the arguments are an option.
\<close>

definition BuildSettings ::
  "TerminalSettings \<Rightarrow> CascadiaSettings \<Rightarrow> NewTerminalArgs option
     \<Rightarrow> failure + (guid \<times> TerminalSettings)" where
  "BuildSettings fresh appSettings newTerminalArgs =
     (let profileGuid = GetProfileForArgs appSettings newTerminalArgs in
      case TerminalSettings_ctor fresh appSettings profileGuid of
        Inl e \<Rightarrow> Inl e
      | Inr settings \<Rightarrow>
          (case newTerminalArgs of
             Some args \<Rightarrow>
               (let settings = (if NewTerminalArgs.Commandline args \<noteq> []
                                then settings\<lparr>Commandline := NewTerminalArgs.Commandline args\<rparr>
                                else settings);
                    settings = (if NewTerminalArgs.StartingDirectory args \<noteq> []
                                then settings\<lparr>StartingDirectory :=
                                                NewTerminalArgs.StartingDirectory args\<rparr>
                                else settings);
                    settings = (if NewTerminalArgs.TabTitle args \<noteq> []
                                then settings\<lparr>StartingTitle := NewTerminalArgs.TabTitle args\<rparr>
                                else settings)
                in Inr (profileGuid, settings))
           | None \<Rightarrow> Inr (profileGuid, settings)))"

subsection \<open>Sample inputs\<close>

text \<open>
  A registry with two profiles and one colour scheme, used to run the functions on
  concrete inputs. Profile \<open>PA\<close> has no tab title and names no scheme; profile \<open>PB\<close>
  has a tab title, names the scheme and sets a foreground and a tab colour of its own.
\<close>

definition sample_settings :: TerminalSettings where
  "sample_settings =
     \<lparr>HistorySize = 9001, SnapOnInput = True, AltGrAliasing = True, CursorHeight = 25,
      CursorShape = 0, ProfileName = [], UseAcrylic = False, TintOpacity = 0, FontFace = ''Consolas'',
      FontSize = 12, FontWeight = 400, Padding = ''8, 8, 8, 8'', Commandline = ''cmd.exe'',
      StartingDirectory = ''C:/'', StartingTitle = [], SuppressApplicationTitle = False,
      DefaultForeground = 0xFFFFFF, DefaultBackground = 0, SelectionBackground = 0xFFFFFF,
      CursorColor = 0xFFFFFF, ScrollState = 0, BackgroundImage = [], BackgroundImageOpacity = 0,
      BackgroundImageStretchMode = 0, BackgroundImageHorizontalAlignment = 0,
      BackgroundImageVerticalAlignment = 0, RetroTerminalEffect = False, AntialiasingMode = 0,
      TabColor = None, InitialRows = 30, InitialCols = 80, WordDelimiters = [],
      CopyOnSelect = False, ForceFullRepaintRendering = False, SoftwareRendering = False,
      ForceVTInput = False,
      colorTable = [0, 0, 0, 0, 0, 0, 0, 0, 0, 0, 0, 0, 0, 0, 0, 0]\<rparr>"

definition sample_scheme :: ColorScheme where
  "sample_scheme =
     \<lparr>ColorScheme.Foreground = Color 0xCCCCCC, ColorScheme.Background = Color 0x0C0C0C,
      ColorScheme.SelectionBackground = Color 0xFFFFFF, ColorScheme.CursorColor = Color 0xFFFFFE,
      Table = map Color [100, 101, 102, 103, 104, 105, 106, 107,
                         108, 109, 110, 111, 112, 113, 114, 115]\<rparr>"

definition sample_schemes :: "hstring \<rightharpoonup> ColorScheme" where
  "sample_schemes = [''Campbell'' \<mapsto> sample_scheme]"

definition PA :: Profile where
  "PA =
     \<lparr>Profile.HistorySize = 100, Profile.SnapOnInput = False, Profile.AltGrAliasing = False,
      Profile.CursorHeight = 50, Profile.CursorShape = 1, Name = ''Alpha'',
      Profile.UseAcrylic = True, AcrylicOpacity = 5, Profile.FontFace = ''Cascadia Mono'',
      Profile.FontSize = 10, Profile.FontWeight = 700, Profile.Padding = ''4'',
      Profile.Commandline = ''bash'', Profile.StartingDirectory = [],
      GetEvaluatedStartingDirectory = [], Profile.TabTitle = [],
      Profile.SuppressApplicationTitle = False, ColorSchemeName = [],
      Profile.Foreground = None, Profile.Background = None,
      Profile.SelectionBackground = None, Profile.CursorColor = None,
      Profile.ScrollState = 1, BackgroundImagePath = [], GetExpandedBackgroundImagePath = [],
      Profile.BackgroundImageOpacity = 1, Profile.BackgroundImageStretchMode = 3,
      Profile.BackgroundImageHorizontalAlignment = 1,
      Profile.BackgroundImageVerticalAlignment = 1, Profile.RetroTerminalEffect = False,
      Profile.AntialiasingMode = 0, Profile.TabColor = None\<rparr>"

definition PB :: Profile where
  "PB =
     \<lparr>Profile.HistorySize = 200, Profile.SnapOnInput = True, Profile.AltGrAliasing = True,
      Profile.CursorHeight = 25, Profile.CursorShape = 2, Name = ''Beta'',
      Profile.UseAcrylic = False, AcrylicOpacity = 7, Profile.FontFace = ''Consolas'',
      Profile.FontSize = 14, Profile.FontWeight = 400, Profile.Padding = ''8'',
      Profile.Commandline = ''pwsh'', Profile.StartingDirectory = ''%USERPROFILE%'',
      GetEvaluatedStartingDirectory = ''C:/Users/u'', Profile.TabTitle = ''Custom'',
      Profile.SuppressApplicationTitle = True, ColorSchemeName = ''Campbell'',
      Profile.Foreground = Some (Color 0x112233), Profile.Background = None,
      Profile.SelectionBackground = None, Profile.CursorColor = None,
      Profile.ScrollState = 0, BackgroundImagePath = ''%APPDATA%/b.png'',
      GetExpandedBackgroundImagePath = ''C:/Users/u/AppData/b.png'',
      Profile.BackgroundImageOpacity = 2, Profile.BackgroundImageStretchMode = 1,
      Profile.BackgroundImageHorizontalAlignment = 0,
      Profile.BackgroundImageVerticalAlignment = 2, Profile.RetroTerminalEffect = True,
      Profile.AntialiasingMode = 1, Profile.TabColor = Some (Color 0x445566)\<rparr>"

definition sample_globals :: GlobalAppSettings where
  "sample_globals =
     \<lparr>GetColorSchemes = sample_schemes, GlobalAppSettings.InitialRows = 40,
      GlobalAppSettings.InitialCols = 120, GlobalAppSettings.WordDelimiters = '' ./'',
      GlobalAppSettings.CopyOnSelect = True, GlobalAppSettings.ForceFullRepaintRendering = True,
      GlobalAppSettings.SoftwareRendering = True, GlobalAppSettings.ForceVTInput = True\<rparr>"

definition sample_app :: CascadiaSettings where
  "sample_app =
     \<lparr>FindProfile = (\<lambda>g. if g = 1 then Some PA else if g = 2 then Some PB else None),
      GlobalSettings = sample_globals,
      GetProfileForArgs = (\<lambda>a. case a of None \<Rightarrow> 1 | Some _ \<Rightarrow> 2)\<rparr>"

definition title_only_args :: NewTerminalArgs where
  "title_only_args =
     \<lparr>NewTerminalArgs.Commandline = [], NewTerminalArgs.StartingDirectory = [],
      TabTitle = ''Build''\<rparr>"

definition full_args :: NewTerminalArgs where
  "full_args =
     \<lparr>NewTerminalArgs.Commandline = ''zsh -l'', NewTerminalArgs.StartingDirectory = ''%TEMP%'',
      TabTitle = ''Work''\<rparr>"

text \<open>
  The settings that the constructor composes from the sample registry for \<open>PA\<close> and for
  \<open>PB\<close>, written out; lemmas \<open>ctor_PA\<close> and \<open>ctor_PB\<close> below run the
  constructor and arrive at them.
\<close>

definition PA_settings :: TerminalSettings where
  "PA_settings =
     \<lparr>HistorySize = 100, SnapOnInput = False, AltGrAliasing = False, CursorHeight = 50,
      CursorShape = 1, ProfileName = ''Alpha'', UseAcrylic = True, TintOpacity = 5,
      FontFace = ''Cascadia Mono'', FontSize = 10, FontWeight = 700, Padding = ''4'',
      Commandline = ''bash'', StartingDirectory = ''C:/'', StartingTitle = ''Alpha'',
      SuppressApplicationTitle = False, DefaultForeground = 0xFFFFFF, DefaultBackground = 0,
      SelectionBackground = 0xFFFFFF, CursorColor = 0xFFFFFF, ScrollState = 1,
      BackgroundImage = [], BackgroundImageOpacity = 1, BackgroundImageStretchMode = 3,
      BackgroundImageHorizontalAlignment = 1, BackgroundImageVerticalAlignment = 1,
      RetroTerminalEffect = False, AntialiasingMode = 0, TabColor = None, InitialRows = 40,
      InitialCols = 120, WordDelimiters = '' ./'', CopyOnSelect = True,
      ForceFullRepaintRendering = True, SoftwareRendering = True, ForceVTInput = True,
      colorTable = [0, 0, 0, 0, 0, 0, 0, 0, 0, 0, 0, 0, 0, 0, 0, 0]\<rparr>"

definition PB_settings :: TerminalSettings where
  "PB_settings =
     \<lparr>HistorySize = 200, SnapOnInput = True, AltGrAliasing = True, CursorHeight = 25,
      CursorShape = 2, ProfileName = ''Beta'', UseAcrylic = False, TintOpacity = 7,
      FontFace = ''Consolas'', FontSize = 14, FontWeight = 400, Padding = ''8'',
      Commandline = ''pwsh'', StartingDirectory = ''C:/Users/u'', StartingTitle = ''Custom'',
      SuppressApplicationTitle = True, DefaultForeground = 0x112233,
      DefaultBackground = 0x0C0C0C, SelectionBackground = 0xFFFFFF, CursorColor = 0xFFFFFE,
      ScrollState = 0, BackgroundImage = ''C:/Users/u/AppData/b.png'',
      BackgroundImageOpacity = 2, BackgroundImageStretchMode = 1,
      BackgroundImageHorizontalAlignment = 0, BackgroundImageVerticalAlignment = 2,
      RetroTerminalEffect = True, AntialiasingMode = 1, TabColor = Some 0x445566,
      InitialRows = 40, InitialCols = 120, WordDelimiters = '' ./'', CopyOnSelect = True,
      ForceFullRepaintRendering = True, SoftwareRendering = True, ForceVTInput = True,
      colorTable = [100, 101, 102, 103, 104, 105, 106, 107,
                    108, 109, 110, 111, 112, 113, 114, 115]\<rparr>"

section \<open>Properties\<close>

subsection \<open>Machine integers: the index as \<^verbatim>\<open>int32_t\<close> and as \<^verbatim>\<open>size_t\<close>\<close>

lemma sint_of_nat_small:
  assumes "k < 2 ^ 31"
  shows "sint (word_of_nat k :: 32 word) = int k"
proof -
  have "signed_take_bit 31 (int k) = int k"
    using assms by (intro signed_take_bit_int_eq_self) simp_all
  moreover have "(word_of_nat k :: 32 word) = word_of_int (int k)"
    by simp
  ultimately show ?thesis
    by (simp only: sint_sbintrunc') simp
qed

text \<open>A non-negative index keeps its value on the way to \<^verbatim>\<open>size_t\<close>.\<close>

lemma scast_nonneg:
  assumes "0 \<le> sint (i :: 32 word)"
  shows "unat (scast i :: 64 word) = nat (sint i)"
proof -
  have "sint i < 2 ^ 31"
    using sint_lt [of i] by simp
  also have "(2::int) ^ 31 < 2 ^ 64"
    by (rule power_strict_increasing) simp_all
  finally have "sint i < 2 ^ LENGTH(64)"
    by simp
  with assms have "sint i mod 2 ^ LENGTH(64) = sint i"
    by (rule mod_pos_pos_trivial)
  then have "uint (word_of_int (sint i) :: 64 word) = sint i"
    by (simp only: uint_word_of_int)
  then show ?thesis
    by (simp only: scast_eq unat_eq_nat_uint)
qed

text \<open>A negative index becomes a \<^verbatim>\<open>size_t\<close> far beyond any table.\<close>

lemma scast_neg:
  assumes "sint (i :: 32 word) < 0"
  shows "2 ^ 31 \<le> unat (scast i :: 64 word)"
proof -
  define P :: int where "P = 2 ^ LENGTH(64)"
  define L :: int where "L = 2 ^ 31"
  have lo: "- L \<le> sint i"
    using sint_ge [of i] by (simp add: L_def)
  have big: "L + L \<le> P"
    by (simp add: L_def P_def)
  have pos: "0 \<le> L"
    by (simp add: L_def)
  have "0 \<le> sint i + P"
    using lo big pos by linarith
  moreover have "sint i + P < P"
    using assms by linarith
  ultimately have "(sint i + P) mod P = sint i + P"
    by (rule mod_pos_pos_trivial)
  then have "sint i mod P = sint i + P"
    by (simp only: mod_add_self2)
  then have "uint (word_of_int (sint i) :: 64 word) = sint i + P"
    by (simp only: uint_word_of_int P_def)
  then have "uint (scast i :: 64 word) = sint i + P"
    by (simp only: scast_eq)
  with lo big pos have "L \<le> uint (scast i :: 64 word)"
    by linarith
  then have "nat L \<le> nat (uint (scast i :: 64 word))"
    by (rule nat_mono)
  then show ?thesis
    by (simp only: unat_eq_nat_uint L_def) simp
qed

subsection \<open>The colour table with its 16 slots\<close>

lemma array_at_index:
  assumes "length xs = 16"
  shows "array_at xs (scast (i :: int32_t)) =
           (if 0 \<le> sint i \<and> sint i < 16 then Inr (xs ! nat (sint i)) else Inl out_of_range)"
proof (cases "0 \<le> sint i")
  case True
  then show ?thesis
    using assms by (auto simp add: array_at_def scast_nonneg)
next
  case False
  then have "2 ^ 31 \<le> unat (scast i :: size_t)"
    by (intro scast_neg) simp
  then have "\<not> unat (scast i :: size_t) < 16"
    by simp
  with False show ?thesis
    using assms by (simp add: array_at_def)
qed

lemma GetColorTableEntry_16:
  assumes "length (colorTable s) = 16"
  shows "GetColorTableEntry i s =
           (if 0 \<le> sint i \<and> sint i < 16 then Inr (colorTable s ! nat (sint i))
            else Inl terminate)"
  using assms by (simp add: GetColorTableEntry_def array_at_index)

lemma SetColorTableEntry_16:
  assumes "length (colorTable s) = 16"
  shows "SetColorTableEntry i v s =
           (if 16 \<le> sint i then Inl E_INVALIDARG
            else if sint i < 0 then Inl out_of_range
            else Inr (s\<lparr>colorTable := (colorTable s)[nat (sint i) := v]\<rparr>))"
  using assms
  by (simp add: SetColorTableEntry_def array_at_index word_sle_eq scast_nonneg)

text \<open>
  Claim C1, as the code has it. With the 16 slots of the table, both operations succeed
  for every index in [0,16): the read returns the slot and the write replaces that slot
  alone. For every index outside [0,16) both fail, so no index is truncated or wrapped
  onto a slot. The error of the write is the invalid-argument error for every index
  from 16 upwards; the read has no such check: its failure is the out-of-range exception
  of \<^verbatim>\<open>at\<close> inside a \<^verbatim>\<open>noexcept\<close> function, which ends the process.
\<close>

theorem color_table_entry_bounds:
  assumes "length (colorTable s) = COLOR_TABLE_SIZE"
  shows "(0 \<le> sint index \<and> sint index < 16 \<longrightarrow>
            GetColorTableEntry index s = Inr (colorTable s ! nat (sint index)) \<and>
            SetColorTableEntry index val s =
              Inr (s\<lparr>colorTable := (colorTable s)[nat (sint index) := val]\<rparr>)) \<and>
         (\<not> (0 \<le> sint index \<and> sint index < 16) \<longrightarrow>
            GetColorTableEntry index s = Inl terminate \<and>
            (\<exists>e. SetColorTableEntry index val s = Inl e)) \<and>
         (16 \<le> sint index \<longrightarrow> SetColorTableEntry index val s = Inl E_INVALIDARG)"
proof -
  have len: "length (colorTable s) = 16"
    using assms by (simp add: COLOR_TABLE_SIZE_def)
  show ?thesis
    by (simp add: GetColorTableEntry_16 [OF len] SetColorTableEntry_16 [OF len])
qed

text \<open>The theorem on the sample settings, at the indices 3 and \<^verbatim>\<open>INT_MAX\<close>.\<close>

theorem color_table_entry_bounds_witness:
  "length (colorTable sample_settings) = COLOR_TABLE_SIZE \<and>
   GetColorTableEntry 3 sample_settings = Inr (colorTable sample_settings ! 3) \<and>
   SetColorTableEntry 3 7 sample_settings =
     Inr (sample_settings\<lparr>colorTable := (colorTable sample_settings)[3 := 7]\<rparr>) \<and>
   SetColorTableEntry 0x7FFFFFFF 7 sample_settings = Inl E_INVALIDARG"
proof -
  have len: "length (colorTable sample_settings) = COLOR_TABLE_SIZE"
    by (simp add: sample_settings_def COLOR_TABLE_SIZE_def)
  show ?thesis
    using len color_table_entry_bounds [OF len, of 3 7]
      color_table_entry_bounds [OF len, of "0x7FFFFFFF" 7]
    by simp
qed

text \<open>
  Claim C1 as stated fails: on the sample settings the read fails at -1, 16 and
  \<^verbatim>\<open>INT_MAX\<close> without the invalid-argument error, and the write at -1 fails with
  the out-of-range exception of \<^verbatim>\<open>at\<close>, since the test
  \<^verbatim>\<open>index >= colorTableCount\<close> lets a negative index pass.
\<close>

theorem color_table_entry_invalid_argument_counterexample:
  "length (colorTable sample_settings) = COLOR_TABLE_SIZE \<and>
   GetColorTableEntry (- 1) sample_settings = Inl terminate \<and>
   GetColorTableEntry 16 sample_settings = Inl terminate \<and>
   GetColorTableEntry 0x7FFFFFFF sample_settings = Inl terminate \<and>
   SetColorTableEntry (- 1) 7 sample_settings = Inl out_of_range"
proof -
  have len: "length (colorTable sample_settings) = 16"
    by (simp add: sample_settings_def)
  show ?thesis
    by (simp add: GetColorTableEntry_16 [OF len] SetColorTableEntry_16 [OF len]
        COLOR_TABLE_SIZE_def len)
qed

subsection \<open>The palette loop\<close>

lemma unat_of_nat_small:
  assumes "k < 16"
  shows "unat (word_of_nat k :: 32 word) = k"
proof -
  have "(16::nat) \<le> 2 ^ LENGTH(32)"
    by simp
  with assms have "k < 2 ^ LENGTH(32)"
    by (rule less_le_trans)
  then show ?thesis
    by (rule of_nat_inverse [OF refl])
qed

lemma SetColorTableEntry_frame:
  assumes "SetColorTableEntry i v s = Inr s'"
  shows "s' = s\<lparr>colorTable := colorTable s'\<rparr>"
  using assms
  by (auto simp add: SetColorTableEntry_def Let_def split: if_splits sum.splits)

lemma ApplyColorScheme_loop_frame:
  "ApplyColorScheme_loop i n table s = Inr s' \<Longrightarrow> s' = s\<lparr>colorTable := colorTable s'\<rparr>"
proof (induction i n table s rule: ApplyColorScheme_loop.induct)
  case (1 i tableCount table s)
  show ?case
  proof (cases "i <s tableCount")
    case False
    with "1.prems" show ?thesis
      by (simp add: ApplyColorScheme_loop.simps [of i])
  next
    case True
    with "1.prems" obtain s1 where
      set: "SetColorTableEntry i (to_uint32 (table ! unat i)) s = Inr s1" and
      rest: "ApplyColorScheme_loop (i + 1) tableCount table s1 = Inr s'"
      by (auto simp add: ApplyColorScheme_loop.simps [of i] split: sum.splits)
    from "1.IH" [OF True set rest] have "s' = s1\<lparr>colorTable := colorTable s'\<rparr>" .
    moreover from SetColorTableEntry_frame [OF set] have "s1 = s\<lparr>colorTable := colorTable s1\<rparr>" .
    ultimately show ?thesis
      by (metis TerminalSettings.update_convs(37) TerminalSettings.surjective)
  qed
qed


lemma ApplyColorScheme_loop_16:
  assumes "length table = 16" and "length (colorTable s) = 16" and "k \<le> 16"
  shows "ApplyColorScheme_loop (word_of_nat k) 16 table s =
           Inr (s\<lparr>colorTable := take k (colorTable s) @ map to_uint32 (drop k table)\<rparr>)"
  using assms
proof (induction "16 - k" arbitrary: k s)
  case 0
  then have k: "k = 16"
    by simp
  have "\<not> (16 :: int32_t) <s 16"
    by simp
  then have "ApplyColorScheme_loop 16 16 table s = Inr s"
    by (simp add: ApplyColorScheme_loop.simps [of 16])
  with 0 k show ?case
    by simp
next
  case (Suc m)
  then have k: "k < 16"
    by simp
  then have sk: "sint (word_of_nat k :: int32_t) = int k"
    by (intro sint_of_nat_small) simp
  have uk: "unat (word_of_nat k :: int32_t) = k"
    using k by (rule unat_of_nat_small)
  let ?v = "to_uint32 (table ! k)"
  let ?s1 = "s\<lparr>colorTable := (colorTable s)[k := ?v]\<rparr>"
  have cond: "(word_of_nat k :: int32_t) <s 16"
    using k by (simp add: word_sless_alt sk)
  have set: "SetColorTableEntry (word_of_nat k) ?v s = Inr ?s1"
    using k by (simp add: SetColorTableEntry_16 [OF Suc.prems(2)] sk)
  have next_i: "(word_of_nat k :: int32_t) + 1 = word_of_nat (Suc k)"
    by simp
  have "ApplyColorScheme_loop (word_of_nat (Suc k)) 16 table ?s1 =
          Inr (?s1\<lparr>colorTable := take (Suc k) (colorTable ?s1) @ map to_uint32 (drop (Suc k) table)\<rparr>)"
    using Suc.hyps(2) Suc.prems k by (intro Suc.hyps(1)) simp_all
  moreover have "take (Suc k) ((colorTable s)[k := ?v]) = take k (colorTable s) @ [?v]"
    using k Suc.prems(2) by (simp add: take_Suc_conv_app_nth)
  moreover have "drop k table = table ! k # drop (Suc k) table"
    using k Suc.prems(1) by (simp add: Cons_nth_drop_Suc)
  ultimately have "ApplyColorScheme_loop (word_of_nat (Suc k)) 16 table ?s1 =
      Inr (s\<lparr>colorTable := take k (colorTable s) @ map to_uint32 (drop k table)\<rparr>)"
    by simp
  then show ?case
    by (simp add: ApplyColorScheme_loop.simps [of "word_of_nat k"] cond set uk next_i
        del: of_nat_Suc)
qed

lemma priv_ApplyColorScheme_16:
  assumes "length (Table scheme) = 16" and "length (colorTable s) = 16"
  shows "priv_ApplyColorScheme scheme s =
           Inr (s\<lparr>DefaultForeground := to_uint32 (ColorScheme.Foreground scheme),
                  DefaultBackground := to_uint32 (ColorScheme.Background scheme),
                  SelectionBackground := to_uint32 (ColorScheme.SelectionBackground scheme),
                  CursorColor := to_uint32 (ColorScheme.CursorColor scheme),
                  colorTable := map to_uint32 (Table scheme)\<rparr>)"
proof -
  let ?s = "s\<lparr>DefaultForeground := to_uint32 (ColorScheme.Foreground scheme),
                  DefaultBackground := to_uint32 (ColorScheme.Background scheme),
                  SelectionBackground := to_uint32 (ColorScheme.SelectionBackground scheme),
                  CursorColor := to_uint32 (ColorScheme.CursorColor scheme)\<rparr>"
  have "ApplyColorScheme_loop (word_of_nat 0) 16 (Table scheme) ?s =
          Inr (?s\<lparr>colorTable := take 0 (colorTable ?s) @ map to_uint32 (drop 0 (Table scheme))\<rparr>)"
    using assms by (intro ApplyColorScheme_loop_16) simp_all
  then show ?thesis
    using assms by (simp add: priv_ApplyColorScheme_def)
qed

lemma priv_ApplyColorScheme_frame:
  assumes "priv_ApplyColorScheme scheme s = Inr s'"
  shows "s' = s\<lparr>DefaultForeground := to_uint32 (ColorScheme.Foreground scheme),
                  DefaultBackground := to_uint32 (ColorScheme.Background scheme),
                  SelectionBackground := to_uint32 (ColorScheme.SelectionBackground scheme),
                  CursorColor := to_uint32 (ColorScheme.CursorColor scheme),
                  colorTable := colorTable s'\<rparr>"
  using ApplyColorScheme_loop_frame [OF assms [unfolded priv_ApplyColorScheme_def Let_def]]
  by simp

subsection \<open>Looking a scheme up\<close>

lemma ApplyColorScheme_unknown:
  assumes "schemes scheme = None"
  shows "ApplyColorScheme scheme schemes s = Inr (False, s)"
  using assms by (simp add: ApplyColorScheme_def)

lemma ApplyColorScheme_known:
  assumes "schemes scheme = Some found"
    and "length (Table found) = 16"
    and "length (colorTable s) = 16"
  shows "ApplyColorScheme scheme schemes s =
           Inr (True, s\<lparr>DefaultForeground := to_uint32 (ColorScheme.Foreground found),
                         DefaultBackground := to_uint32 (ColorScheme.Background found),
                         SelectionBackground := to_uint32 (ColorScheme.SelectionBackground found),
                         CursorColor := to_uint32 (ColorScheme.CursorColor found),
                         colorTable := map to_uint32 (Table found)\<rparr>)"
  using assms
  by (simp add: ApplyColorScheme_def priv_ApplyColorScheme_16)

lemma ApplyColorScheme_frame:
  assumes "ApplyColorScheme scheme schemes s = Inr r"
  shows "\<exists>fg bg sb cc tbl. snd r = s\<lparr>DefaultForeground := fg, DefaultBackground := bg,
            SelectionBackground := sb, CursorColor := cc, colorTable := tbl\<rparr>"
proof (cases "schemes scheme")
  case None
  with assms have "snd r = s"
    by (auto simp add: ApplyColorScheme_def)
  then have "snd r = s\<lparr>DefaultForeground := DefaultForeground s, DefaultBackground := DefaultBackground s,
            SelectionBackground := SelectionBackground s, CursorColor := CursorColor s,
            colorTable := colorTable s\<rparr>"
    by simp
  then show ?thesis
    by blast
next
  case (Some found)
  with assms obtain s' where "priv_ApplyColorScheme found s = Inr s'" and "snd r = s'"
    by (auto simp add: ApplyColorScheme_def split: sum.splits)
  with priv_ApplyColorScheme_frame [of found s s'] show ?thesis
    by blast
qed

subsection \<open>The profile layer in closed form\<close>

text \<open>
  \<^verbatim>\<open>_ApplyProfileSettings\<close> as one update before the scheme is looked up and one
  update after it: every conditional assignment \<^verbatim>\<open>if (c) _X = v;\<close> is the field
  \<open>X\<close> set to \<open>if c then v else X s\<close>.
\<close>

lemma priv_ApplyProfileSettings_closed:
  "priv_ApplyProfileSettings p schemes s0 =
     (case (if ColorSchemeName p \<noteq> []
            then ApplyColorScheme (ColorSchemeName p) schemes
              (s0\<lparr>HistorySize := Profile.HistorySize p,
                   SnapOnInput := Profile.SnapOnInput p,
                   AltGrAliasing := Profile.AltGrAliasing p,
                   CursorHeight := Profile.CursorHeight p,
                   CursorShape := Profile.CursorShape p,
                   ProfileName := Name p,
                   UseAcrylic := Profile.UseAcrylic p,
                   TintOpacity := AcrylicOpacity p,
                   FontFace := Profile.FontFace p,
                   FontSize := Profile.FontSize p,
                   FontWeight := Profile.FontWeight p,
                   Padding := Profile.Padding p,
                   Commandline := Profile.Commandline p,
                   StartingDirectory :=
                     (if Profile.StartingDirectory p \<noteq> [] then GetEvaluatedStartingDirectory p
                      else StartingDirectory s0),
                   StartingTitle :=
                     (if Profile.TabTitle p \<noteq> [] then Profile.TabTitle p else Name p),
                   SuppressApplicationTitle :=
                     (if Profile.SuppressApplicationTitle p then True
                      else SuppressApplicationTitle s0)\<rparr>)
            else Inr (False,
              s0\<lparr>HistorySize := Profile.HistorySize p,
                   SnapOnInput := Profile.SnapOnInput p,
                   AltGrAliasing := Profile.AltGrAliasing p,
                   CursorHeight := Profile.CursorHeight p,
                   CursorShape := Profile.CursorShape p,
                   ProfileName := Name p,
                   UseAcrylic := Profile.UseAcrylic p,
                   TintOpacity := AcrylicOpacity p,
                   FontFace := Profile.FontFace p,
                   FontSize := Profile.FontSize p,
                   FontWeight := Profile.FontWeight p,
                   Padding := Profile.Padding p,
                   Commandline := Profile.Commandline p,
                   StartingDirectory :=
                     (if Profile.StartingDirectory p \<noteq> [] then GetEvaluatedStartingDirectory p
                      else StartingDirectory s0),
                   StartingTitle :=
                     (if Profile.TabTitle p \<noteq> [] then Profile.TabTitle p else Name p),
                   SuppressApplicationTitle :=
                     (if Profile.SuppressApplicationTitle p then True
                      else SuppressApplicationTitle s0)\<rparr>)) of
        Inl e \<Rightarrow> Inl e
      | Inr r \<Rightarrow>
          Inr ((snd r)\<lparr>DefaultForeground :=
                 (case Profile.Foreground p of Some c \<Rightarrow> to_uint32 c
                  | None \<Rightarrow> DefaultForeground (snd r)),
               DefaultBackground :=
                 (case Profile.Background p of Some c \<Rightarrow> to_uint32 c
                  | None \<Rightarrow> DefaultBackground (snd r)),
               SelectionBackground :=
                 (case Profile.SelectionBackground p of Some c \<Rightarrow> to_uint32 c
                  | None \<Rightarrow> SelectionBackground (snd r)),
               CursorColor :=
                 (case Profile.CursorColor p of Some c \<Rightarrow> to_uint32 c
                  | None \<Rightarrow> CursorColor (snd r)),
               ScrollState := Profile.ScrollState p,
               BackgroundImage :=
                 (if BackgroundImagePath p \<noteq> [] then GetExpandedBackgroundImagePath p
                  else BackgroundImage (snd r)),
               BackgroundImageOpacity := Profile.BackgroundImageOpacity p,
               BackgroundImageStretchMode := Profile.BackgroundImageStretchMode p,
               BackgroundImageHorizontalAlignment := Profile.BackgroundImageHorizontalAlignment p,
               BackgroundImageVerticalAlignment := Profile.BackgroundImageVerticalAlignment p,
               RetroTerminalEffect := Profile.RetroTerminalEffect p,
               AntialiasingMode := Profile.AntialiasingMode p,
               TabColor :=
                 (case Profile.TabColor p of Some c \<Rightarrow> Some (to_uint32 c)
                  | None \<Rightarrow> TabColor (snd r))\<rparr>))"
  unfolding priv_ApplyProfileSettings_def
  by (cases "Profile.StartingDirectory p = []"; cases "Profile.SuppressApplicationTitle p";
      cases "Profile.Foreground p"; cases "Profile.Background p";
      cases "Profile.SelectionBackground p"; cases "Profile.CursorColor p";
      cases "Profile.TabColor p"; cases "BackgroundImagePath p = []";
      simp add: Let_def cong: sum.case_cong)

lemma case_sum_InrD:
  "(case x of Inl e \<Rightarrow> Inl e | Inr r \<Rightarrow> Inr (f r)) = Inr s \<Longrightarrow> \<exists>r. x = Inr r \<and> s = f r"
  by (cases x) auto

lemma scheme_stage_frame:
  assumes "(if c then ApplyColorScheme n schemes pre else Inr (False, pre)) = Inr r"
  shows "\<exists>fg bg sb cc tbl. snd r = pre\<lparr>DefaultForeground := fg, DefaultBackground := bg,
            SelectionBackground := sb, CursorColor := cc, colorTable := tbl\<rparr>"
proof (cases c)
  case True
  with assms show ?thesis
    by (simp add: ApplyColorScheme_frame)
next
  case False
  with assms have "snd r = pre"
    by auto
  then have "snd r = pre\<lparr>DefaultForeground := DefaultForeground pre,
      DefaultBackground := DefaultBackground pre,
      SelectionBackground := SelectionBackground pre, CursorColor := CursorColor pre,
      colorTable := colorTable pre\<rparr>"
    by simp
  then show ?thesis
    by blast
qed

lemma priv_ApplyProfileSettings_fields:
  assumes "priv_ApplyProfileSettings p schemes s0 = Inr s"
  shows "StartingTitle s = (if Profile.TabTitle p \<noteq> [] then Profile.TabTitle p else Name p) \<and>
         StartingDirectory s =
           (if Profile.StartingDirectory p \<noteq> [] then GetEvaluatedStartingDirectory p
            else StartingDirectory s0) \<and>
         Commandline s = Profile.Commandline p \<and>
         TabColor s = (case Profile.TabColor p of Some c \<Rightarrow> Some (to_uint32 c) | None \<Rightarrow> TabColor s0) \<and>
         (\<forall>c. Profile.Foreground p = Some c \<longrightarrow> DefaultForeground s = to_uint32 c) \<and>
         (\<forall>c. Profile.Background p = Some c \<longrightarrow> DefaultBackground s = to_uint32 c) \<and>
         (\<forall>c. Profile.SelectionBackground p = Some c \<longrightarrow> SelectionBackground s = to_uint32 c) \<and>
         (\<forall>c. Profile.CursorColor p = Some c \<longrightarrow> CursorColor s = to_uint32 c)"
  using assms unfolding priv_ApplyProfileSettings_closed
  apply -
  apply (drule case_sum_InrD)
  apply (erule exE, erule conjE)
  apply (drule scheme_stage_frame)
  apply (elim exE)
  apply (simp split: option.split)
  done

subsection \<open>Globals, constructor and launch arguments in closed form\<close>

lemma priv_ApplyGlobalSettings_closed:
  "priv_ApplyGlobalSettings globalSettings s =
     s\<lparr>InitialRows := GlobalAppSettings.InitialRows globalSettings,
       InitialCols := GlobalAppSettings.InitialCols globalSettings,
       WordDelimiters := GlobalAppSettings.WordDelimiters globalSettings,
       CopyOnSelect := GlobalAppSettings.CopyOnSelect globalSettings,
       ForceFullRepaintRendering := GlobalAppSettings.ForceFullRepaintRendering globalSettings,
       SoftwareRendering := GlobalAppSettings.SoftwareRendering globalSettings,
       ForceVTInput := GlobalAppSettings.ForceVTInput globalSettings\<rparr>"
  by (simp add: priv_ApplyGlobalSettings_def Let_def)

lemma priv_ApplyProfileSettings_succeeds:
  assumes len: "length (colorTable s0) = 16"
    and schemes: "\<And>sc. schemes (ColorSchemeName p) = Some sc \<Longrightarrow> length (Table sc) = 16"
  shows "\<exists>s. priv_ApplyProfileSettings p schemes s0 = Inr s"
proof (cases "ColorSchemeName p = []")
  case True
  then show ?thesis
    by (simp add: priv_ApplyProfileSettings_closed)
next
  case named: False
  show ?thesis
  proof (cases "schemes (ColorSchemeName p)")
    case None
    with named show ?thesis
      by (simp add: priv_ApplyProfileSettings_closed ApplyColorScheme_unknown)
  next
    case (Some sc)
    have "ApplyColorScheme (ColorSchemeName p) schemes s =
            Inr (True, s\<lparr>DefaultForeground := to_uint32 (ColorScheme.Foreground sc),
                         DefaultBackground := to_uint32 (ColorScheme.Background sc),
                         SelectionBackground := to_uint32 (ColorScheme.SelectionBackground sc),
                         CursorColor := to_uint32 (ColorScheme.CursorColor sc),
                         colorTable := map to_uint32 (Table sc)\<rparr>)"
      if "length (colorTable s) = 16" for s
      using Some schemes [OF Some] that by (rule ApplyColorScheme_known)
    with named len show ?thesis
      by (simp add: priv_ApplyProfileSettings_closed)
  qed
qed

lemma TerminalSettings_ctor_found:
  assumes "FindProfile app g = Some p"
  shows "TerminalSettings_ctor fresh app g =
           (case priv_ApplyProfileSettings p (GetColorSchemes (GlobalSettings app)) fresh of
              Inl e \<Rightarrow> Inl e
            | Inr s \<Rightarrow> Inr (priv_ApplyGlobalSettings (GlobalSettings app) s))"
  using assms by (simp add: TerminalSettings_ctor_def Let_def)

lemma TerminalSettings_ctor_fields:
  assumes find: "FindProfile app g = Some p"
    and ctor: "TerminalSettings_ctor fresh app g = Inr s"
  shows "StartingTitle s = (if Profile.TabTitle p \<noteq> [] then Profile.TabTitle p else Name p) \<and>
         StartingDirectory s =
           (if Profile.StartingDirectory p \<noteq> [] then GetEvaluatedStartingDirectory p
            else StartingDirectory fresh) \<and>
         Commandline s = Profile.Commandline p \<and>
         TabColor s = (case Profile.TabColor p of Some c \<Rightarrow> Some (to_uint32 c) | None \<Rightarrow> TabColor fresh) \<and>
         (\<forall>c. Profile.Foreground p = Some c \<longrightarrow> DefaultForeground s = to_uint32 c) \<and>
         (\<forall>c. Profile.Background p = Some c \<longrightarrow> DefaultBackground s = to_uint32 c) \<and>
         (\<forall>c. Profile.SelectionBackground p = Some c \<longrightarrow> SelectionBackground s = to_uint32 c) \<and>
         (\<forall>c. Profile.CursorColor p = Some c \<longrightarrow> CursorColor s = to_uint32 c)"
proof -
  from ctor obtain s1 where
    s1: "priv_ApplyProfileSettings p (GetColorSchemes (GlobalSettings app)) fresh = Inr s1" and
    s: "s = priv_ApplyGlobalSettings (GlobalSettings app) s1"
    by (auto simp add: TerminalSettings_ctor_found [OF find] split: sum.splits)
  from priv_ApplyProfileSettings_fields [OF s1] show ?thesis
    unfolding s priv_ApplyGlobalSettings_closed by simp
qed

lemma BuildSettings_closed:
  "BuildSettings fresh app args =
     (case TerminalSettings_ctor fresh app (GetProfileForArgs app args) of
        Inl e \<Rightarrow> Inl e
      | Inr s0 \<Rightarrow>
          Inr (GetProfileForArgs app args,
               case args of
                 None \<Rightarrow> s0
               | Some a \<Rightarrow>
                   s0\<lparr>Commandline :=
                        (if NewTerminalArgs.Commandline a \<noteq> [] then NewTerminalArgs.Commandline a
                         else Commandline s0),
                      StartingDirectory :=
                        (if NewTerminalArgs.StartingDirectory a \<noteq> []
                         then NewTerminalArgs.StartingDirectory a
                         else StartingDirectory s0),
                      StartingTitle :=
                        (if TabTitle a \<noteq> [] then TabTitle a else StartingTitle s0)\<rparr>))"
proof (cases args)
  case None
  then show ?thesis
    by (simp add: BuildSettings_def split: sum.split)
next
  case (Some a)
  then show ?thesis
    by (cases "NewTerminalArgs.Commandline a = []";
        cases "NewTerminalArgs.StartingDirectory a = []"; cases "TabTitle a = []")
      (simp_all add: BuildSettings_def Let_def split: sum.split)
qed

lemma BuildSettings_Inr:
  assumes "BuildSettings fresh app args = Inr (g, s)"
  shows "g = GetProfileForArgs app args \<and>
         (\<exists>s0. TerminalSettings_ctor fresh app g = Inr s0 \<and>
            s = (case args of
                   None \<Rightarrow> s0
                 | Some a \<Rightarrow>
                     s0\<lparr>Commandline :=
                          (if NewTerminalArgs.Commandline a \<noteq> [] then NewTerminalArgs.Commandline a
                           else Commandline s0),
                        StartingDirectory :=
                          (if NewTerminalArgs.StartingDirectory a \<noteq> []
                           then NewTerminalArgs.StartingDirectory a
                           else StartingDirectory s0),
                        StartingTitle :=
                          (if TabTitle a \<noteq> [] then TabTitle a else StartingTitle s0)\<rparr>))"
  using assms unfolding BuildSettings_closed
  by (cases "TerminalSettings_ctor fresh app (GetProfileForArgs app args)") auto

subsection \<open>The constructor on the sample registry\<close>

lemma sample_schemes_Campbell: "sample_schemes ''Campbell'' = Some sample_scheme"
  by (simp add: sample_schemes_def)

lemma ctor_PA: "TerminalSettings_ctor sample_settings sample_app 1 = Inr PA_settings"
  by (simp add: TerminalSettings_ctor_def sample_app_def priv_ApplyProfileSettings_closed
      PA_def priv_ApplyGlobalSettings_def sample_globals_def sample_settings_def PA_settings_def)

lemma ctor_PB: "TerminalSettings_ctor sample_settings sample_app 2 = Inr PB_settings"
proof -
  have "ApplyColorScheme ''Campbell'' sample_schemes s =
          Inr (True, s\<lparr>DefaultForeground := 0xCCCCCC, DefaultBackground := 0x0C0C0C,
                        SelectionBackground := 0xFFFFFF, CursorColor := 0xFFFFFE,
                        colorTable := [100, 101, 102, 103, 104, 105, 106, 107,
                                       108, 109, 110, 111, 112, 113, 114, 115]\<rparr>)"
    if "length (colorTable s) = 16" for s
    using that
    by (simp add: ApplyColorScheme_known [of sample_schemes "''Campbell''" sample_scheme, OF sample_schemes_Campbell] sample_scheme_def)
  then show ?thesis
    by (simp add: TerminalSettings_ctor_def sample_app_def priv_ApplyProfileSettings_closed
        PB_def priv_ApplyGlobalSettings_def sample_globals_def sample_settings_def PB_settings_def)
qed

lemma build_full_args:
  "BuildSettings sample_settings sample_app (Some full_args) =
     Inr (2, PB_settings\<lparr>Commandline := ''zsh -l'', StartingDirectory := ''%TEMP%'',
                          StartingTitle := ''Work''\<rparr>)"
proof -
  have "GetProfileForArgs sample_app (Some full_args) = 2"
    by (simp add: sample_app_def)
  then show ?thesis
    by (simp add: BuildSettings_closed ctor_PB full_args_def)
qed

section \<open>The claims about schemes, profiles and construction\<close>

text \<open>
  Claim C2. When \<^verbatim>\<open>FindProfile\<close> has no profile for the identity, the constructor
  and \<^verbatim>\<open>BuildSettings\<close> fail with the invalid-argument error, and a failure carries
  no settings object. It is the only failure: with the 16 slots of the colour table and
  of every palette of the registry, both succeed whenever the profile is found.
\<close>

theorem profile_absent_only_failure:
  "(FindProfile app g = None \<longrightarrow> TerminalSettings_ctor fresh app g = Inl E_INVALIDARG) \<and>
   (FindProfile app (GetProfileForArgs app args) = None \<longrightarrow>
      BuildSettings fresh app args = Inl E_INVALIDARG) \<and>
   (length (colorTable fresh) = COLOR_TABLE_SIZE \<and>
    (\<forall>name sc. GetColorSchemes (GlobalSettings app) name = Some sc \<longrightarrow>
       length (Table sc) = COLOR_TABLE_SIZE) \<longrightarrow>
      (FindProfile app g \<noteq> None \<longrightarrow> (\<exists>s. TerminalSettings_ctor fresh app g = Inr s)) \<and>
      (FindProfile app (GetProfileForArgs app args) \<noteq> None \<longrightarrow>
         (\<exists>s. BuildSettings fresh app args = Inr (GetProfileForArgs app args, s))))"
proof -
  have absent: "TerminalSettings_ctor fresh app h = Inl E_INVALIDARG"
    if "FindProfile app h = None" for h
    using that by (simp add: TerminalSettings_ctor_def)
  have present: "\<exists>s. TerminalSettings_ctor fresh app h = Inr s"
    if len: "length (colorTable fresh) = COLOR_TABLE_SIZE"
      and tables: "\<forall>name sc. GetColorSchemes (GlobalSettings app) name = Some sc \<longrightarrow>
         length (Table sc) = COLOR_TABLE_SIZE"
      and found: "FindProfile app h \<noteq> None" for h
  proof -
    from found obtain p where p: "FindProfile app h = Some p"
      by auto
    have "\<exists>s. priv_ApplyProfileSettings p (GetColorSchemes (GlobalSettings app)) fresh = Inr s"
      using len tables
      by (intro priv_ApplyProfileSettings_succeeds) (auto simp add: COLOR_TABLE_SIZE_def)
    then show ?thesis
      by (auto simp add: TerminalSettings_ctor_found [OF p])
  qed
  have build: "\<exists>s. BuildSettings fresh app args = Inr (GetProfileForArgs app args, s)"
    if "\<exists>s. TerminalSettings_ctor fresh app (GetProfileForArgs app args) = Inr s"
    using that by (auto simp add: BuildSettings_closed)
  show ?thesis
    using absent present build by (simp add: BuildSettings_closed)
qed

text \<open>
  The theorem on the sample registry: identity 3 has no profile; identity 2 has one,
  and absent launch arguments resolve to identity 1.
\<close>

theorem profile_absent_only_failure_witness:
  "FindProfile sample_app 3 = None \<and>
   TerminalSettings_ctor sample_settings sample_app 3 = Inl E_INVALIDARG \<and>
   FindProfile sample_app 2 \<noteq> None \<and>
   (\<exists>s. TerminalSettings_ctor sample_settings sample_app 2 = Inr s) \<and>
   (\<exists>s. BuildSettings sample_settings sample_app None = Inr (1, s))"
proof -
  have len: "length (colorTable sample_settings) = COLOR_TABLE_SIZE"
    by (simp add: sample_settings_def COLOR_TABLE_SIZE_def)
  have tables: "\<forall>name sc. GetColorSchemes (GlobalSettings sample_app) name = Some sc \<longrightarrow>
      length (Table sc) = COLOR_TABLE_SIZE"
    by (simp add: sample_app_def sample_globals_def sample_schemes_def sample_scheme_def
        COLOR_TABLE_SIZE_def)
  have absent: "FindProfile sample_app 3 = None"
    by (simp add: sample_app_def)
  have present: "FindProfile sample_app 2 \<noteq> None"
    by (simp add: sample_app_def)
  have none: "GetProfileForArgs sample_app None = 1" "FindProfile sample_app 1 \<noteq> None"
    by (simp_all add: sample_app_def)
  show ?thesis
    using profile_absent_only_failure [of sample_app 3 sample_settings None]
      profile_absent_only_failure [of sample_app 2 sample_settings None]
      len tables absent present none
    by simp
qed

text \<open>
  Claim C3. For a scheme name that the registry does not have,
  \<^verbatim>\<open>ApplyColorScheme\<close> returns false and the settings object is the one it was
  given: every field, the colours among them, is unchanged.
\<close>

theorem unknown_scheme_changes_nothing:
  assumes "schemes scheme = None"
  shows "ApplyColorScheme scheme schemes s = Inr (False, s)"
  using assms by (rule ApplyColorScheme_unknown)

theorem unknown_scheme_changes_nothing_witness:
  "sample_schemes ''Solarized'' = None \<and>
   ApplyColorScheme ''Solarized'' sample_schemes PB_settings = Inr (False, PB_settings)"
proof -
  have unknown: "sample_schemes ''Solarized'' = None"
    by (simp add: sample_schemes_def)
  from unknown unknown_scheme_changes_nothing [of sample_schemes "''Solarized''" PB_settings, OF unknown] show ?thesis
    by simp
qed

text \<open>
  Claim C4. For a scheme name that the registry has, \<^verbatim>\<open>ApplyColorScheme\<close> returns
  true, and the settings object differs from the one it was given in the foreground,
  background, selection background and cursor colours, which are the scheme's, and in
  the colour table, whose entry at each index 0..15 is the scheme's palette entry at
  that index. The palette and the colour table have their 16 entries.
\<close>

theorem known_scheme_sets_colors:
  assumes "schemes scheme = Some found"
    and "length (Table found) = COLOR_TABLE_SIZE"
    and "length (colorTable s) = COLOR_TABLE_SIZE"
  shows "ApplyColorScheme scheme schemes s =
           Inr (True, s\<lparr>DefaultForeground := to_uint32 (ColorScheme.Foreground found),
                         DefaultBackground := to_uint32 (ColorScheme.Background found),
                         SelectionBackground := to_uint32 (ColorScheme.SelectionBackground found),
                         CursorColor := to_uint32 (ColorScheme.CursorColor found),
                         colorTable := map to_uint32 (Table found)\<rparr>)"
  using assms unfolding COLOR_TABLE_SIZE_def by (rule ApplyColorScheme_known)

theorem known_scheme_sets_colors_witness:
  "sample_schemes ''Campbell'' = Some sample_scheme \<and>
   length (Table sample_scheme) = COLOR_TABLE_SIZE \<and>
   length (colorTable sample_settings) = COLOR_TABLE_SIZE \<and>
   ApplyColorScheme ''Campbell'' sample_schemes sample_settings =
     Inr (True, sample_settings\<lparr>DefaultForeground := 0xCCCCCC, DefaultBackground := 0x0C0C0C,
                  SelectionBackground := 0xFFFFFF, CursorColor := 0xFFFFFE,
                  colorTable := [100, 101, 102, 103, 104, 105, 106, 107,
                                 108, 109, 110, 111, 112, 113, 114, 115]\<rparr>)"
proof -
  have found: "sample_schemes ''Campbell'' = Some sample_scheme"
    by (simp add: sample_schemes_def)
  have palette: "length (Table sample_scheme) = COLOR_TABLE_SIZE"
    by (simp add: sample_scheme_def COLOR_TABLE_SIZE_def)
  have table: "length (colorTable sample_settings) = COLOR_TABLE_SIZE"
    by (simp add: sample_settings_def COLOR_TABLE_SIZE_def)
  from known_scheme_sets_colors [of sample_schemes "''Campbell''" sample_scheme sample_settings,
      OF found palette table]
  have "ApplyColorScheme ''Campbell'' sample_schemes sample_settings =
     Inr (True, sample_settings\<lparr>DefaultForeground := 0xCCCCCC, DefaultBackground := 0x0C0C0C,
                  SelectionBackground := 0xFFFFFF, CursorColor := 0xFFFFFE,
                  colorTable := [100, 101, 102, 103, 104, 105, 106, 107,
                                 108, 109, 110, 111, 112, 113, 114, 115]\<rparr>)"
    by (simp add: sample_scheme_def)
  with found palette table show ?thesis
    by simp
qed


text \<open>
  Claim C5. When the profile supplies a foreground, background, selection background,
  cursor or tab colour, the composed settings hold the profile's value for it, whether
  or not the profile names a scheme: the profile's colours are written after the scheme
  is applied, and neither the globals nor the launch arguments write a colour. This holds
  for the settings of the constructor and for those of \<^verbatim>\<open>BuildSettings\<close>.
\<close>

theorem profile_colors_win_over_scheme:
  assumes "FindProfile app g = Some p"
    and "TerminalSettings_ctor fresh app g = Inr s \<or> BuildSettings fresh app args = Inr (g, s)"
  shows "(\<forall>c. Profile.Foreground p = Some c \<longrightarrow> DefaultForeground s = to_uint32 c) \<and>
         (\<forall>c. Profile.Background p = Some c \<longrightarrow> DefaultBackground s = to_uint32 c) \<and>
         (\<forall>c. Profile.SelectionBackground p = Some c \<longrightarrow> SelectionBackground s = to_uint32 c) \<and>
         (\<forall>c. Profile.CursorColor p = Some c \<longrightarrow> CursorColor s = to_uint32 c) \<and>
         (\<forall>c. Profile.TabColor p = Some c \<longrightarrow> TabColor s = Some (to_uint32 c))"
  using assms(2)
proof
  assume "TerminalSettings_ctor fresh app g = Inr s"
  from TerminalSettings_ctor_fields [OF assms(1) this] show ?thesis
    by simp
next
  assume "BuildSettings fresh app args = Inr (g, s)"
  from BuildSettings_Inr [OF this] obtain s0 where
    s0: "TerminalSettings_ctor fresh app g = Inr s0" and
    colors: "DefaultForeground s = DefaultForeground s0" "DefaultBackground s = DefaultBackground s0"
      "SelectionBackground s = SelectionBackground s0" "CursorColor s = CursorColor s0"
      "TabColor s = TabColor s0"
    by (cases args) auto
  from TerminalSettings_ctor_fields [OF assms(1) s0] show ?thesis
    unfolding colors by simp
qed

text \<open>
  The theorem on profile \<open>PB\<close>, which names the scheme Campbell (foreground
  \<^verbatim>\<open>0xCCCCCC\<close>) and has a foreground and a tab colour of its own.
\<close>

theorem profile_colors_win_over_scheme_witness:
  "FindProfile sample_app 2 = Some PB \<and>
   TerminalSettings_ctor sample_settings sample_app 2 = Inr PB_settings \<and>
   ColorSchemeName PB = ''Campbell'' \<and>
   sample_schemes ''Campbell'' = Some sample_scheme \<and>
   to_uint32 (ColorScheme.Foreground sample_scheme) = 0xCCCCCC \<and>
   DefaultForeground PB_settings = 0x112233 \<and>
   TabColor PB_settings = Some 0x445566"
proof -
  have find: "FindProfile sample_app 2 = Some PB"
    by (simp add: sample_app_def)
  have ctor: "TerminalSettings_ctor sample_settings sample_app 2 = Inr PB_settings
      \<or> BuildSettings sample_settings sample_app None = Inr (2, PB_settings)"
    by (simp add: ctor_PB)
  have "Profile.Foreground PB = Some (Color 0x112233)" "Profile.TabColor PB = Some (Color 0x445566)"
    by (simp_all add: PB_def)
  with profile_colors_win_over_scheme [OF find ctor]
  have "DefaultForeground PB_settings = 0x112233" "TabColor PB_settings = Some 0x445566"
    by simp_all
  with find ctor_PB show ?thesis
    by (simp add: PB_def sample_schemes_def sample_scheme_def)
qed

text \<open>
  Claim C6. The starting title of the constructed settings is the profile's tab title
  when that is not empty and the profile's name otherwise. The launch-time override of
  \<^verbatim>\<open>BuildSettings\<close> comes after it: the title it returns is the launch argument's tab
  title when that is not empty, and the title above in every other case.
\<close>

theorem starting_title_fallback:
  assumes "FindProfile app g = Some p"
  shows "(\<forall>s. TerminalSettings_ctor fresh app g = Inr s \<longrightarrow>
            StartingTitle s = (if Profile.TabTitle p \<noteq> [] then Profile.TabTitle p else Name p)) \<and>
         (\<forall>s. BuildSettings fresh app args = Inr (g, s) \<longrightarrow>
            StartingTitle s =
              (case args of
                 Some a \<Rightarrow>
                   if TabTitle a \<noteq> [] then TabTitle a
                   else if Profile.TabTitle p \<noteq> [] then Profile.TabTitle p else Name p
               | None \<Rightarrow> if Profile.TabTitle p \<noteq> [] then Profile.TabTitle p else Name p))"
proof (intro conjI allI impI)
  fix s
  assume "TerminalSettings_ctor fresh app g = Inr s"
  from TerminalSettings_ctor_fields [OF assms this]
  show "StartingTitle s = (if Profile.TabTitle p \<noteq> [] then Profile.TabTitle p else Name p)"
    by simp
next
  fix s
  assume "BuildSettings fresh app args = Inr (g, s)"
  from BuildSettings_Inr [OF this] obtain s0 where
    s0: "TerminalSettings_ctor fresh app g = Inr s0" and
    title: "StartingTitle s =
      (case args of Some a \<Rightarrow> if TabTitle a \<noteq> [] then TabTitle a else StartingTitle s0
       | None \<Rightarrow> StartingTitle s0)"
    by (cases args) auto
  from TerminalSettings_ctor_fields [OF assms s0]
  have "StartingTitle s0 = (if Profile.TabTitle p \<noteq> [] then Profile.TabTitle p else Name p)"
    by simp
  with title show "StartingTitle s =
      (case args of
         Some a \<Rightarrow>
           if TabTitle a \<noteq> [] then TabTitle a
           else if Profile.TabTitle p \<noteq> [] then Profile.TabTitle p else Name p
       | None \<Rightarrow> if Profile.TabTitle p \<noteq> [] then Profile.TabTitle p else Name p)"
    by (simp split: option.split)
qed

text \<open>
  The theorem on the two sample profiles: \<open>PA\<close>, named Alpha, has no tab title;
  \<open>PB\<close>, named Beta, has the tab title Custom.
\<close>

theorem starting_title_fallback_witness:
  "FindProfile sample_app 1 = Some PA \<and> FindProfile sample_app 2 = Some PB \<and>
   TerminalSettings_ctor sample_settings sample_app 1 = Inr PA_settings \<and>
   TerminalSettings_ctor sample_settings sample_app 2 = Inr PB_settings \<and>
   StartingTitle PA_settings = ''Alpha'' \<and> StartingTitle PB_settings = ''Custom''"
proof -
  have findA: "FindProfile sample_app 1 = Some PA" and findB: "FindProfile sample_app 2 = Some PB"
    by (simp_all add: sample_app_def)
  from starting_title_fallback [OF findA, of sample_settings None] ctor_PA
  have "StartingTitle PA_settings = ''Alpha''"
    by (simp add: PA_def)
  moreover from starting_title_fallback [OF findB, of sample_settings None] ctor_PB
  have "StartingTitle PB_settings = ''Custom''"
    by (simp add: PB_def)
  ultimately show ?thesis
    using findA findB ctor_PA ctor_PB by simp
qed

text \<open>
  Claim C7. With a launch-argument object, \<^verbatim>\<open>BuildSettings\<close> returns the settings of
  the constructor with three fields decided one by one: the commandline, the starting
  directory and the starting title are the argument's commandline, starting directory and
  tab title where that argument field is not empty, and the constructor's value where it
  is empty. No other field differs.
\<close>

theorem launch_arguments_override_nonempty:
  assumes "TerminalSettings_ctor fresh app (GetProfileForArgs app (Some a)) = Inr s0"
  shows "BuildSettings fresh app (Some a) =
           Inr (GetProfileForArgs app (Some a),
                s0\<lparr>Commandline :=
                     (if NewTerminalArgs.Commandline a \<noteq> [] then NewTerminalArgs.Commandline a
                      else Commandline s0),
                   StartingDirectory :=
                     (if NewTerminalArgs.StartingDirectory a \<noteq> []
                      then NewTerminalArgs.StartingDirectory a
                      else StartingDirectory s0),
                   StartingTitle :=
                     (if TabTitle a \<noteq> [] then TabTitle a else StartingTitle s0)\<rparr>)"
  using assms by (simp add: BuildSettings_closed)

text \<open>
  The theorem on profile \<open>PB\<close>: arguments with only a title replace the title alone;
  arguments with all three fields replace all three.
\<close>

theorem launch_arguments_override_nonempty_witness:
  "TerminalSettings_ctor sample_settings sample_app (GetProfileForArgs sample_app (Some title_only_args))
     = Inr PB_settings \<and>
   BuildSettings sample_settings sample_app (Some title_only_args) =
     Inr (2, PB_settings\<lparr>StartingTitle := ''Build''\<rparr>) \<and>
   BuildSettings sample_settings sample_app (Some full_args) =
     Inr (2, PB_settings\<lparr>Commandline := ''zsh -l'', StartingDirectory := ''%TEMP%'',
                          StartingTitle := ''Work''\<rparr>)"
proof -
  have guid: "GetProfileForArgs sample_app (Some a) = 2" for a
    by (simp add: sample_app_def)
  have ctor: "TerminalSettings_ctor sample_settings sample_app (GetProfileForArgs sample_app (Some a))
      = Inr PB_settings" for a
    by (simp add: guid ctor_PB)
  have "BuildSettings sample_settings sample_app (Some title_only_args) =
      Inr (2, PB_settings\<lparr>StartingTitle := ''Build''\<rparr>)"
    using launch_arguments_override_nonempty [OF ctor [of title_only_args]]
    by (simp add: guid title_only_args_def)
  moreover have "BuildSettings sample_settings sample_app (Some full_args) =
      Inr (2, PB_settings\<lparr>Commandline := ''zsh -l'', StartingDirectory := ''%TEMP%'',
                          StartingTitle := ''Work''\<rparr>)"
    using launch_arguments_override_nonempty [OF ctor [of full_args]]
    by (simp add: guid full_args_def)
  ultimately show ?thesis
    using ctor [of title_only_args] by simp
qed

text \<open>
  Claim C8. \<^verbatim>\<open>_ApplyGlobalSettings\<close> gives the seven global fields the values of the
  globals, whatever the settings object held, and every other field of the settings
  object, the colours and the colour table among them, keeps its value.
\<close>

theorem global_settings_write_seven_fields:
  "InitialRows (priv_ApplyGlobalSettings globals s) = GlobalAppSettings.InitialRows globals \<and>
   InitialCols (priv_ApplyGlobalSettings globals s) = GlobalAppSettings.InitialCols globals \<and>
   WordDelimiters (priv_ApplyGlobalSettings globals s) = GlobalAppSettings.WordDelimiters globals \<and>
   CopyOnSelect (priv_ApplyGlobalSettings globals s) = GlobalAppSettings.CopyOnSelect globals \<and>
   ForceFullRepaintRendering (priv_ApplyGlobalSettings globals s) =
     GlobalAppSettings.ForceFullRepaintRendering globals \<and>
   SoftwareRendering (priv_ApplyGlobalSettings globals s) =
     GlobalAppSettings.SoftwareRendering globals \<and>
   ForceVTInput (priv_ApplyGlobalSettings globals s) = GlobalAppSettings.ForceVTInput globals \<and>
   priv_ApplyGlobalSettings globals s =
     s\<lparr>InitialRows := InitialRows (priv_ApplyGlobalSettings globals s),
       InitialCols := InitialCols (priv_ApplyGlobalSettings globals s),
       WordDelimiters := WordDelimiters (priv_ApplyGlobalSettings globals s),
       CopyOnSelect := CopyOnSelect (priv_ApplyGlobalSettings globals s),
       ForceFullRepaintRendering := ForceFullRepaintRendering (priv_ApplyGlobalSettings globals s),
       SoftwareRendering := SoftwareRendering (priv_ApplyGlobalSettings globals s),
       ForceVTInput := ForceVTInput (priv_ApplyGlobalSettings globals s)\<rparr> \<and>
   HistorySize (priv_ApplyGlobalSettings globals s) = HistorySize s \<and>
   SnapOnInput (priv_ApplyGlobalSettings globals s) = SnapOnInput s \<and>
   AltGrAliasing (priv_ApplyGlobalSettings globals s) = AltGrAliasing s \<and>
   CursorHeight (priv_ApplyGlobalSettings globals s) = CursorHeight s \<and>
   CursorShape (priv_ApplyGlobalSettings globals s) = CursorShape s \<and>
   ProfileName (priv_ApplyGlobalSettings globals s) = ProfileName s \<and>
   UseAcrylic (priv_ApplyGlobalSettings globals s) = UseAcrylic s \<and>
   TintOpacity (priv_ApplyGlobalSettings globals s) = TintOpacity s \<and>
   FontFace (priv_ApplyGlobalSettings globals s) = FontFace s \<and>
   FontSize (priv_ApplyGlobalSettings globals s) = FontSize s \<and>
   FontWeight (priv_ApplyGlobalSettings globals s) = FontWeight s \<and>
   Padding (priv_ApplyGlobalSettings globals s) = Padding s \<and>
   Commandline (priv_ApplyGlobalSettings globals s) = Commandline s \<and>
   StartingDirectory (priv_ApplyGlobalSettings globals s) = StartingDirectory s \<and>
   StartingTitle (priv_ApplyGlobalSettings globals s) = StartingTitle s \<and>
   SuppressApplicationTitle (priv_ApplyGlobalSettings globals s) = SuppressApplicationTitle s \<and>
   DefaultForeground (priv_ApplyGlobalSettings globals s) = DefaultForeground s \<and>
   DefaultBackground (priv_ApplyGlobalSettings globals s) = DefaultBackground s \<and>
   SelectionBackground (priv_ApplyGlobalSettings globals s) = SelectionBackground s \<and>
   CursorColor (priv_ApplyGlobalSettings globals s) = CursorColor s \<and>
   ScrollState (priv_ApplyGlobalSettings globals s) = ScrollState s \<and>
   BackgroundImage (priv_ApplyGlobalSettings globals s) = BackgroundImage s \<and>
   BackgroundImageOpacity (priv_ApplyGlobalSettings globals s) = BackgroundImageOpacity s \<and>
   BackgroundImageStretchMode (priv_ApplyGlobalSettings globals s) = BackgroundImageStretchMode s \<and>
   BackgroundImageHorizontalAlignment (priv_ApplyGlobalSettings globals s) =
     BackgroundImageHorizontalAlignment s \<and>
   BackgroundImageVerticalAlignment (priv_ApplyGlobalSettings globals s) =
     BackgroundImageVerticalAlignment s \<and>
   RetroTerminalEffect (priv_ApplyGlobalSettings globals s) = RetroTerminalEffect s \<and>
   AntialiasingMode (priv_ApplyGlobalSettings globals s) = AntialiasingMode s \<and>
   TabColor (priv_ApplyGlobalSettings globals s) = TabColor s \<and>
   colorTable (priv_ApplyGlobalSettings globals s) = colorTable s"
  unfolding priv_ApplyGlobalSettings_closed by simp

text \<open>
  Claim C9. The constructor sets the starting directory to the profile's evaluated
  starting directory exactly when the profile's raw starting directory is not empty;
  otherwise the field keeps the value of the fresh object. A launch argument with a
  starting directory that is not empty puts that string, as it was given, in its place.
\<close>

theorem starting_directory_sources:
  assumes "FindProfile app g = Some p"
  shows "(\<forall>s. TerminalSettings_ctor fresh app g = Inr s \<longrightarrow>
            StartingDirectory s =
              (if Profile.StartingDirectory p \<noteq> [] then GetEvaluatedStartingDirectory p
               else StartingDirectory fresh)) \<and>
         (\<forall>a s. BuildSettings fresh app (Some a) = Inr (g, s) \<longrightarrow>
            StartingDirectory s =
              (if NewTerminalArgs.StartingDirectory a \<noteq> [] then NewTerminalArgs.StartingDirectory a
               else if Profile.StartingDirectory p \<noteq> [] then GetEvaluatedStartingDirectory p
               else StartingDirectory fresh))"
proof (intro conjI allI impI)
  fix s
  assume "TerminalSettings_ctor fresh app g = Inr s"
  from TerminalSettings_ctor_fields [OF assms this]
  show "StartingDirectory s =
      (if Profile.StartingDirectory p \<noteq> [] then GetEvaluatedStartingDirectory p
       else StartingDirectory fresh)"
    by simp
next
  fix a s
  assume "BuildSettings fresh app (Some a) = Inr (g, s)"
  from BuildSettings_Inr [OF this] obtain s0 where
    s0: "TerminalSettings_ctor fresh app g = Inr s0" and
    dir: "StartingDirectory s =
      (if NewTerminalArgs.StartingDirectory a \<noteq> [] then NewTerminalArgs.StartingDirectory a
       else StartingDirectory s0)"
    by auto
  from TerminalSettings_ctor_fields [OF assms s0]
  have "StartingDirectory s0 =
      (if Profile.StartingDirectory p \<noteq> [] then GetEvaluatedStartingDirectory p
       else StartingDirectory fresh)"
    by simp
  with dir show "StartingDirectory s =
      (if NewTerminalArgs.StartingDirectory a \<noteq> [] then NewTerminalArgs.StartingDirectory a
       else if Profile.StartingDirectory p \<noteq> [] then GetEvaluatedStartingDirectory p
       else StartingDirectory fresh)"
    by simp
qed

text \<open>
  The theorem on the sample registry: \<open>PB\<close> has a raw starting directory and the
  settings hold its evaluated form; \<open>PA\<close> has none and the settings keep the directory
  of the fresh object; the launch argument's directory is stored unexpanded.
\<close>

theorem starting_directory_sources_witness:
  "FindProfile sample_app 2 = Some PB \<and>
   TerminalSettings_ctor sample_settings sample_app 2 = Inr PB_settings \<and>
   Profile.StartingDirectory PB = ''%USERPROFILE%'' \<and>
   StartingDirectory PB_settings = ''C:/Users/u'' \<and>
   FindProfile sample_app 1 = Some PA \<and>
   TerminalSettings_ctor sample_settings sample_app 1 = Inr PA_settings \<and>
   Profile.StartingDirectory PA = [] \<and>
   StartingDirectory PA_settings = StartingDirectory sample_settings \<and>
   BuildSettings sample_settings sample_app (Some full_args) =
     Inr (2, PB_settings\<lparr>Commandline := ''zsh -l'', StartingDirectory := ''%TEMP%'',
                          StartingTitle := ''Work''\<rparr>) \<and>
   StartingDirectory (PB_settings\<lparr>Commandline := ''zsh -l'', StartingDirectory := ''%TEMP%'',
                          StartingTitle := ''Work''\<rparr>) = ''%TEMP%''"
proof -
  have findA: "FindProfile sample_app 1 = Some PA" and findB: "FindProfile sample_app 2 = Some PB"
    by (simp_all add: sample_app_def)
  from starting_directory_sources [OF findB, of sample_settings] ctor_PB build_full_args
  have "StartingDirectory PB_settings = ''C:/Users/u''"
    and "StartingDirectory (PB_settings\<lparr>Commandline := ''zsh -l'',
           StartingDirectory := ''%TEMP%'', StartingTitle := ''Work''\<rparr>) = ''%TEMP%''"
    by (simp_all add: PB_def full_args_def)
  moreover note build_full_args
  moreover from starting_directory_sources [OF findA, of sample_settings] ctor_PA
  have "StartingDirectory PA_settings = StartingDirectory sample_settings"
    by (simp add: PA_def)
  ultimately show ?thesis
    using findA findB ctor_PA ctor_PB by (simp add: PA_def PB_def)
qed

text \<open>
  Claim C10. Without a launch-argument object, \<^verbatim>\<open>BuildSettings\<close> is the constructor
  at the identity that \<^verbatim>\<open>GetProfileForArgs\<close> gives for the absent arguments: it fails
  as the constructor fails, and returns that identity with the constructor's settings,
  unchanged, when the constructor succeeds.
\<close>

theorem build_without_arguments:
  "BuildSettings fresh app None =
     (case TerminalSettings_ctor fresh app (GetProfileForArgs app None) of
        Inl e \<Rightarrow> Inl e
      | Inr s \<Rightarrow> Inr (GetProfileForArgs app None, s))"
  by (simp add: BuildSettings_closed split: sum.split)

end
